theory Spec2Isabelle
  imports Complex_Main "HOL-Library.Sublist" "HOL-Library.Word"
begin

section \<open>The transcription script of voicescribe (streamlit\_app.py)\<close>

text \<open>
  The repository is one Python script run top to bottom by Streamlit. It defines
  \<^verbatim>\<open>transcribe_audio\<close> (lines 15-25) and \<^verbatim>\<open>log_error\<close> (lines 28-30) and then
  executes its numbered features. The model below follows the script statement by
  statement. What the script receives from outside (the uploaded file, the replies of
  the remote endpoint, the widgets' values, the clock, the audio libraries) is collected
  in a record \<open>env\<close>; what the script changes (the log file, the requests it has issued,
  the read position of the uploaded file, its global variables) is a record \<open>world\<close>
  threaded through every statement. A raised exception is the \<open>Inl\<close> of a sum.
\<close>

subsection \<open>Python values and exceptions\<close>

type_synonym bytes = "8 word list"

datatype pyval =
    PNone
  | PBool bool
  | PInt int
  | PFloat real
  | PStr string
  | PList "pyval list"
  | PDict "(string \<times> pyval) list"

text \<open>
  An exception is its class name and the text \<^verbatim>\<open>str(e)\<close>. Every exception of the
  model is an instance of \<^verbatim>\<open>Exception\<close>, which is what \<^verbatim>\<open>except Exception\<close> catches.
\<close>

datatype exn = Exn (cls: string) (str: string)

definition quoted :: "string \<Rightarrow> string" where
  "quoted s = CHR 0x27 # s @ [CHR 0x27]"

definition AttributeError :: "string \<Rightarrow> string \<Rightarrow> exn" where
  "AttributeError ty attr =
     Exn ''AttributeError'' (quoted ty @ '' object has no attribute '' @ quoted attr)"

definition NameError :: "string \<Rightarrow> exn" where
  "NameError v = Exn ''NameError'' (''name '' @ quoted v @ '' is not defined'')"

definition TypeError :: "string \<Rightarrow> exn" where
  "TypeError m = Exn ''TypeError'' m"

definition KeyError :: "string \<Rightarrow> exn" where
  "KeyError k = Exn ''KeyError'' (quoted k)"

fun type_name :: "pyval \<Rightarrow> string" where
  "type_name PNone = ''NoneType''"
| "type_name (PBool _) = ''bool''"
| "type_name (PInt _) = ''int''"
| "type_name (PFloat _) = ''float''"
| "type_name (PStr _) = ''str''"
| "type_name (PList _) = ''list''"
| "type_name (PDict _) = ''dict''"

text \<open>\<^verbatim>\<open>k in v\<close> for a string \<open>k\<close>: key of a dict, element of a list, substring of a
  string; any other value is not iterable.\<close>

fun py_in :: "string \<Rightarrow> pyval \<Rightarrow> exn + bool" where
  "py_in k (PDict kv) = Inr (k \<in> set (map fst kv))"
| "py_in k (PList xs) = Inr (PStr k \<in> set xs)"
| "py_in k (PStr s) = Inr (sublist k s)"
| "py_in k v = Inl (TypeError (''argument of type '' @ quoted (type_name v) @ '' is not iterable''))"

text \<open>\<^verbatim>\<open>v[k]\<close> for a string \<open>k\<close>.\<close>

fun py_getitem :: "pyval \<Rightarrow> string \<Rightarrow> exn + pyval" where
  "py_getitem (PDict kv) k = (case map_of kv k of Some x \<Rightarrow> Inr x | None \<Rightarrow> Inl (KeyError k))"
| "py_getitem (PList xs) k = Inl (TypeError ''list indices must be integers or slices, not str'')"
| "py_getitem (PStr s) k = Inl (TypeError (''string indices must be integers, not '' @ quoted ''str''))"
| "py_getitem v k = Inl (TypeError (quoted (type_name v) @ '' object is not subscriptable''))"

text \<open>\<^verbatim>\<open>str(n)\<close> for an integer: decimal digits, a minus sign when negative.\<close>

definition digit_char :: "nat \<Rightarrow> char" where
  "digit_char d = ''0123456789'' ! d"

fun str_nat :: "nat \<Rightarrow> string" where
  "str_nat n = (if n < 10 then [digit_char n] else str_nat (n div 10) @ [digit_char (n mod 10)])"

declare str_nat.simps [simp del]

definition str_int :: "int \<Rightarrow> string" where
  "str_int i = (if i < 0 then CHR ''-'' # str_nat (nat (- i)) else str_nat (nat i))"

text \<open>
  \<^verbatim>\<open>datetime.now()\<close> and its text in an f-string, which is \<^verbatim>\<open>str\<close> of it: the
  ISO-8601 date and time of day with a space between them,
  \<^verbatim>\<open>YYYY-MM-DD HH:MM:SS.ffffff\<close>, the fraction left out when the microseconds are 0.
  The class is Python's, not the repository's; \<open>valid_datetime\<close> are the ranges it
  keeps its fields in.
\<close>

record datetime =
  year :: nat
  month :: nat
  day :: nat
  hour :: nat
  minute :: nat
  second :: nat
  microsecond :: nat

definition valid_datetime :: "datetime \<Rightarrow> bool" where
  "valid_datetime d =
     (1 \<le> year d \<and> year d \<le> 9999 \<and> 1 \<le> month d \<and> month d \<le> 12 \<and>
      1 \<le> day d \<and> day d \<le> 31 \<and> hour d < 24 \<and> minute d < 60 \<and> second d < 60 \<and>
      microsecond d < 1000000)"

definition zfill :: "nat \<Rightarrow> string \<Rightarrow> string" where
  "zfill n s = replicate (n - length s) CHR ''0'' @ s"

definition str_datetime :: "datetime \<Rightarrow> string" where
  "str_datetime d =
     zfill 4 (str_nat (year d)) @ ''-'' @ zfill 2 (str_nat (month d)) @ ''-'' @
     zfill 2 (str_nat (day d)) @ '' '' @
     zfill 2 (str_nat (hour d)) @ '':'' @ zfill 2 (str_nat (minute d)) @ '':'' @
     zfill 2 (str_nat (second d)) @
     (if microsecond d = 0 then [] else ''.'' @ zfill 6 (str_nat (microsecond d)))"

subsection \<open>The outside world\<close>

text \<open>
  The uploaded file is Streamlit's file object: a name, a declared type, a size and a
  byte stream that \<^verbatim>\<open>read()\<close> consumes from its current position. The class itself is
  not part of the repository, so any further instance attributes are a parameter
  (\<open>attrs\<close>).
\<close>

record uploaded_file =
  name :: string
  type :: string
  size_bytes :: nat
  content :: bytes
  attrs :: "(string \<times> pyval) list"

record request =
  url :: string
  headers :: "(string \<times> string) list"
  data :: bytes

text \<open>A response: its status code, its body text and what \<^verbatim>\<open>response.json()\<close>
  gives on it (the parsed body, or the exception of a malformed body).\<close>

record response =
  status_code :: int
  body_text :: string
  json :: "exn + pyval"

record env =
  api_token :: string
  uploaded :: "uploaded_file option"
  remote :: "nat \<Rightarrow> request \<Rightarrow> exn + response"
  now :: datetime
  log_fault :: "(exn \<times> nat) option"
  probe :: "exn + real"
  decode_error :: exn
  probe_pos :: nat
  lang_choice :: string
  view_past :: bool
  history :: "(exn + string) option"
  retry_button :: bool
  tts_import :: "exn option"
  tts_say :: "exn option"

text \<open>
  \<^item> \<open>api_token\<close>: the secret read at line 11 (the model starts after line 12);
  \<^item> \<open>uploaded\<close>: what \<^verbatim>\<open>st.file_uploader\<close> returns, \<open>None\<close> when nothing is uploaded;
  \<^item> \<open>remote n rq\<close>: what \<^verbatim>\<open>requests.post\<close> does on the request \<open>rq\<close> when \<open>n\<close>
    requests were issued before: it raises or returns a response;
  \<^item> \<open>now\<close>: what \<^verbatim>\<open>datetime.now()\<close> returns when a log line is written;
  \<^item> \<open>log_fault\<close>: \<open>None\<close> when the log file can be opened and written; else the
    exception that opening or writing it raises and the number of characters of the
    entry that reached the file before (0 when \<^verbatim>\<open>open\<close> itself fails);
  \<^item> \<open>probe\<close>: the outcome of lines 60-62 when pydub is given some bytes (it raises,
    or the rounded duration); \<open>decode_error\<close>: the exception with which pydub raises
    when it is given no bytes at all, which it cannot decode; \<open>probe_pos\<close>: the
    position at which pydub leaves the file's stream;
  \<^item> \<open>lang_choice\<close>, \<open>view_past\<close>, \<open>retry_button\<close>: the values of the widgets;
  \<^item> \<open>history\<close>: \<open>None\<close> when the history file does not exist, else the outcome of
    reading it;
  \<^item> \<open>tts_import\<close>, \<open>tts_say\<close>: the exception, if any, of importing and of running
    pyttsx3.
\<close>

record world =
  error_log :: string
  sent :: "request list"
  read_pos :: nat
  result :: "pyval option"
  duration :: "real option"
  lang :: "string option"

text \<open>
  \<open>error_log\<close> is the content of \<^verbatim>\<open>error_log.txt\<close>; \<open>sent\<close> the requests issued so
  far, oldest first; \<open>read_pos\<close> the read position of the one uploaded file object;
  \<open>result\<close>, \<open>duration\<close> and \<open>lang\<close> the script's global variables, \<open>None\<close> while
  never assigned.
\<close>

definition initial_world :: "string \<Rightarrow> world" where
  "initial_world existing_log =
     \<lparr>error_log = existing_log, sent = [], read_pos = 0,
      result = None, duration = None, lang = None\<rparr>"

subsection \<open>Statements: state passing with exceptions\<close>

type_synonym 'a py = "world \<Rightarrow> (exn + 'a) \<times> world"

definition py_return :: "'a \<Rightarrow> 'a py" where
  "py_return x = (\<lambda>w. (Inr x, w))"

definition py_raise :: "exn \<Rightarrow> 'a py" where
  "py_raise e = (\<lambda>w. (Inl e, w))"

definition py_lift :: "exn + 'a \<Rightarrow> 'a py" where
  "py_lift r = (\<lambda>w. (r, w))"

definition py_bind :: "'a py \<Rightarrow> ('a \<Rightarrow> 'b py) \<Rightarrow> 'b py" where
  "py_bind m f = (\<lambda>w. case m w of (Inl e, w') \<Rightarrow> (Inl e, w') | (Inr x, w') \<Rightarrow> f x w')"

definition py_then :: "unit py \<Rightarrow> 'a py \<Rightarrow> 'a py" where
  "py_then m n = py_bind m (\<lambda>_. n)"

text \<open>\<^verbatim>\<open>try: m except Exception as e: h(e)\<close>\<close>

definition py_try :: "'a py \<Rightarrow> (exn \<Rightarrow> 'a py) \<Rightarrow> 'a py" where
  "py_try m h = (\<lambda>w. case m w of (Inl e, w') \<Rightarrow> h e w' | (Inr x, w') \<Rightarrow> (Inr x, w'))"

subsection \<open>Lines 8-30: the two functions\<close>

definition API_URL :: string where
  "API_URL = ''https://api-inference.huggingface.co/models/openai/whisper-large-v3-turbo''"

definition HEADERS :: "env \<Rightarrow> (string \<times> string) list" where
  "HEADERS env = [(''Authorization'', ''Bearer '' @ api_token env)]"

text \<open>\<^verbatim>\<open>file.read()\<close>: on \<^verbatim>\<open>None\<close> the attribute lookup raises; on the file object
  it returns the bytes from the read position to the end and leaves the position at
  the end.\<close>

definition file_read :: "uploaded_file option \<Rightarrow> bytes py" where
  "file_read file = (\<lambda>w. case file of
       None \<Rightarrow> (Inl (AttributeError ''NoneType'' ''read''), w)
     | Some f \<Rightarrow> (Inr (drop (read_pos w) (content f)),
                  w\<lparr>read_pos := max (read_pos w) (length (content f))\<rparr>))"

definition requests_post :: "env \<Rightarrow> request \<Rightarrow> response py" where
  "requests_post env rq = (\<lambda>w. (remote env (length (sent w)) rq, w\<lparr>sent := sent w @ [rq]\<rparr>))"

definition error_dict :: "string \<Rightarrow> pyval" where
  "error_dict detail = PDict [(''error'', PStr detail)]"

definition transcribe_audio :: "env \<Rightarrow> uploaded_file option \<Rightarrow> pyval py" where
  "transcribe_audio env file =
     py_try
       (py_bind (file_read file) (\<lambda>d.
        py_bind (requests_post env \<lparr>url = API_URL, headers = HEADERS env, data = d\<rparr>) (\<lambda>r.
          if status_code r = 200 then py_lift (json r)
          else py_return (error_dict
                 (''API Error: '' @ str_int (status_code r) @ '' - '' @ body_text r)))))
       (\<lambda>e. py_return (error_dict (str e)))"

text \<open>\<^verbatim>\<open>log_error\<close>: the file is opened in append mode, so whatever is written goes
  after the existing content, also when the write fails part-way.\<close>

definition log_entry :: "env \<Rightarrow> string \<Rightarrow> string" where
  "log_entry env error_message =
     str_datetime (now env) @ '': '' @ error_message @ [CHR 0x0A]"

definition log_error :: "env \<Rightarrow> string \<Rightarrow> unit py" where
  "log_error env error_message = (\<lambda>w. case log_fault env of
       None \<Rightarrow> (Inr (), w\<lparr>error_log := error_log w @ log_entry env error_message\<rparr>)
     | Some (e, n) \<Rightarrow>
         (Inl e, w\<lparr>error_log := error_log w @ take n (log_entry env error_message)\<rparr>))"

subsection \<open>Lines 32-180: the script\<close>

text \<open>
  Streamlit's display calls \<^verbatim>\<open>st.write\<close>, \<^verbatim>\<open>st.info\<close>, \<^verbatim>\<open>st.error\<close>, \<^verbatim>\<open>st.success\<close>,
  \<^verbatim>\<open>st.markdown\<close>, \<^verbatim>\<open>st.progress\<close> and the text areas change nothing of the world
  above and do not raise; they are left out, and so are the features made of them only
  (1-4, 15, 16, 18, 19, 24). Two display calls do more and are modelled:
  \<^verbatim>\<open>st.download_button\<close> raises unless its data is text, and \<^verbatim>\<open>st.audio\<close> rewinds the
  file it is given. Every other statement is below, in the order of the source.
\<close>

definition read_result :: "pyval py" where
  "read_result = (\<lambda>w. case result w of
       None \<Rightarrow> (Inl (NameError ''result''), w)
     | Some v \<Rightarrow> (Inr v, w))"

definition read_duration :: "real py" where
  "read_duration = (\<lambda>w. case duration w of
       None \<Rightarrow> (Inl (NameError ''duration''), w)
     | Some d \<Rightarrow> (Inr d, w))"

definition read_lang :: "string py" where
  "read_lang = (\<lambda>w. case lang w of
       None \<Rightarrow> (Inl (NameError ''lang''), w)
     | Some l \<Rightarrow> (Inr l, w))"

definition assign_result :: "pyval py \<Rightarrow> unit py" where
  "assign_result m = py_bind m (\<lambda>v w. (Inr (), w\<lparr>result := Some v\<rparr>))"

text \<open>\<^verbatim>\<open>k in result\<close> and \<^verbatim>\<open>result[k]\<close> on the global variable.\<close>

definition in_result :: "string \<Rightarrow> bool py" where
  "in_result k = py_bind read_result (\<lambda>v. py_lift (py_in k v))"

definition result_item :: "string \<Rightarrow> pyval py" where
  "result_item k = py_bind read_result (\<lambda>v. py_lift (py_getitem v k))"

text \<open>Feature 5, lines 59-63: pydub reads the file and gives the duration; given no
  bytes it raises. Nothing catches what it raises.\<close>

definition feature5 :: "env \<Rightarrow> unit py" where
  "feature5 env = (case uploaded env of
       None \<Rightarrow> py_return ()
     | Some f \<Rightarrow> (\<lambda>w.
         case (if drop (read_pos w) (content f) = [] then Inl (decode_error env)
               else probe env) of
           Inl e \<Rightarrow> (Inl e, w\<lparr>read_pos := probe_pos env\<rparr>)
         | Inr d \<Rightarrow> (Inr (), w\<lparr>read_pos := probe_pos env, duration := Some d\<rparr>)))"

text \<open>Feature 6, lines 67-72: the transcription attempt and its handler.\<close>

definition feature6 :: "env \<Rightarrow> unit py" where
  "feature6 env =
     py_try (assign_result (transcribe_audio env (uploaded env)))
            (\<lambda>e. log_error env (str e))"

text \<open>Features 7-9, lines 75-89: \<^verbatim>\<open>result["text"]\<close> is displayed when present and
  handed to \<^verbatim>\<open>st.download_button\<close>, which accepts a string and raises on any other
  value a JSON body can hold.\<close>

definition st_download_button :: "pyval \<Rightarrow> unit py" where
  "st_download_button d = (case d of
       PStr s \<Rightarrow> py_return ()
     | _ \<Rightarrow> py_raise (Exn ''StreamlitAPIException''
              (''Invalid binary data format: <class '' @ quoted (type_name d) @ ''>'')))"

definition feature7 :: "unit py" where
  "feature7 = py_bind (in_result ''text'') (\<lambda>b.
     if b then py_bind (result_item ''text'') st_download_button else py_return ())"

text \<open>Feature 10, lines 92-93: \<^verbatim>\<open>time.time() - uploaded_file._timestamp\<close>.\<close>

definition feature10 :: "uploaded_file \<Rightarrow> unit py" where
  "feature10 f = (case map_of (attrs f) ''_timestamp'' of
       None \<Rightarrow> py_raise (AttributeError ''UploadedFile'' ''_timestamp'')
     | Some (PFloat t) \<Rightarrow> py_return ()
     | Some (PInt t) \<Rightarrow> py_return ()
     | Some (PBool t) \<Rightarrow> py_return ()
     | Some v \<Rightarrow> py_raise (TypeError
         (''unsupported operand type(s) for -: '' @ quoted ''float'' @ '' and '' @
          quoted (type_name v))))"

text \<open>Feature 11, lines 96-98: the language selection and the second request.\<close>

definition feature11 :: "env \<Rightarrow> unit py" where
  "feature11 env =
     py_then (\<lambda>w. (Inr (), w\<lparr>lang := Some (lang_choice env)\<rparr>))
       (if lang_choice env \<noteq> ''en''
        then assign_result (transcribe_audio env (uploaded env))
        else py_return ())"

text \<open>Feature 12, lines 101-102.\<close>

definition feature12 :: "unit py" where
  "feature12 = py_bind (in_result ''error'') (\<lambda>b.
     if b then py_bind (result_item ''error'') (\<lambda>_. py_return ()) else py_return ())"

text \<open>Features 13 and 14, lines 105-109: \<^verbatim>\<open>st.audio(uploaded_file, ...)\<close>, twice. To
  take the bytes of the file it is given, Streamlit first rewinds it.\<close>

definition st_audio :: "unit py" where
  "st_audio = (\<lambda>w. (Inr (), w\<lparr>read_pos := 0\<rparr>))"

text \<open>Lines 41-109: everything under \<^verbatim>\<open>if uploaded_file is not None\<close>.\<close>

definition upload_branch :: "env \<Rightarrow> unit py" where
  "upload_branch env = (case uploaded env of
       None \<Rightarrow> py_return ()
     | Some f \<Rightarrow>
         py_then (feature5 env)
        (py_then (feature6 env)
        (py_then feature7
        (py_then (feature10 f)
        (py_then (feature11 env)
        (py_then feature12
        (py_then st_audio
         st_audio)))))))"

text \<open>Feature 17, lines 129-132: the history file is read when the button is clicked
  and the file exists.\<close>

definition feature17 :: "env \<Rightarrow> unit py" where
  "feature17 env =
     (if view_past env
      then (case history env of
              None \<Rightarrow> py_return ()
            | Some (Inl e) \<Rightarrow> py_raise e
            | Some (Inr h) \<Rightarrow> py_return ())
      else py_return ())"

text \<open>Feature 20, lines 150-152: \<^verbatim>\<open>uploaded_file.name\<close>, outside any test of
  \<^verbatim>\<open>uploaded_file\<close>.\<close>

definition feature20 :: "env \<Rightarrow> unit py" where
  "feature20 env = (case uploaded env of
       None \<Rightarrow> py_raise (AttributeError ''NoneType'' ''name'')
     | Some f \<Rightarrow> py_return ())"

text \<open>Feature 21, lines 155-158: the retry button.\<close>

definition feature21 :: "env \<Rightarrow> unit py" where
  "feature21 env =
     (if retry_button env
      then assign_result (transcribe_audio env (uploaded env))
      else py_return ())"

text \<open>Feature 22, lines 161-162.\<close>

definition feature22 :: "unit py" where
  "feature22 = py_bind (in_result ''text'') (\<lambda>b. py_return ())"

text \<open>Feature 23, lines 165-169.\<close>

definition feature23 :: "env \<Rightarrow> unit py" where
  "feature23 env = (case tts_import env of
       Some e \<Rightarrow> py_raise e
     | None \<Rightarrow> py_bind (in_result ''text'') (\<lambda>b.
         if b then (case tts_say env of Some e \<Rightarrow> py_raise e | None \<Rightarrow> py_return ())
         else py_return ()))"

text \<open>Feature 25, lines 176-180: reads \<^verbatim>\<open>duration\<close>, \<^verbatim>\<open>lang\<close> and splits
  \<^verbatim>\<open>result['text']\<close>, which only a string can.\<close>

definition feature25 :: "unit py" where
  "feature25 = py_bind (in_result ''text'') (\<lambda>b.
     if b then
       py_bind read_duration (\<lambda>_.
       py_bind read_lang (\<lambda>_.
       py_bind (result_item ''text'') (\<lambda>t.
         case t of
           PStr s \<Rightarrow> py_return ()
         | _ \<Rightarrow> py_raise (AttributeError (type_name t) ''split''))))
     else py_return ())"

definition script :: "env \<Rightarrow> unit py" where
  "script env =
     py_then (upload_branch env)
    (py_then (feature17 env)
    (py_then (feature20 env)
    (py_then (feature21 env)
    (py_then feature22
    (py_then (feature23 env)
     feature25)))))"

subsection \<open>What the caller and the claims look at\<close>

text \<open>The script tells the two outcomes apart by \<^verbatim>\<open>"text" in result\<close> (line 75) and
  \<^verbatim>\<open>"error" in result\<close> (line 101).\<close>

definition is_success :: "pyval \<Rightarrow> bool" where
  "is_success v = (py_in ''text'' v = Inr True)"

definition is_failure :: "pyval \<Rightarrow> bool" where
  "is_failure v = (py_in ''error'' v = Inr True)"

text \<open>The request that \<^verbatim>\<open>transcribe_audio\<close> issues for the file \<open>f\<close> in the world \<open>w\<close>,
  and the remote's reply to it.\<close>

definition request_for :: "env \<Rightarrow> uploaded_file \<Rightarrow> world \<Rightarrow> request" where
  "request_for env f w =
     \<lparr>url = API_URL, headers = HEADERS env, data = drop (read_pos w) (content f)\<rparr>"

definition reply_to :: "env \<Rightarrow> uploaded_file \<Rightarrow> world \<Rightarrow> exn + response" where
  "reply_to env f w = remote env (length (sent w)) (request_for env f w)"

text \<open>A log entry is a single complete line when it ends in a line break and has no
  other; \<open>entry_written\<close> is what one call of \<^verbatim>\<open>log_error\<close> adds to the file. A
  timestamp has the ISO-8601 form when it is a date \<^verbatim>\<open>YYYY-MM-DD\<close>, a space and a time
  \<^verbatim>\<open>HH:MM:SS\<close>, with or without a fraction of six digits; in the two patterns \<open>d\<close>
  stands for a digit and every other character for itself.\<close>

definition is_digit :: "char \<Rightarrow> bool" where
  "is_digit c = (c \<in> set ''0123456789'')"

definition fits :: "char \<Rightarrow> char \<Rightarrow> bool" where
  "fits p c = (if p = CHR ''d'' then is_digit c else c = p)"

definition iso_8601 :: "string \<Rightarrow> bool" where
  "iso_8601 s = (list_all2 fits ''dddd-dd-dd dd:dd:dd'' s \<or>
                list_all2 fits ''dddd-dd-dd dd:dd:dd.dddddd'' s)"

definition single_line :: "string \<Rightarrow> bool" where
  "single_line s = (s \<noteq> [] \<and> last s = CHR 0x0A \<and> CHR 0x0A \<notin> set (butlast s))"

definition entry_written :: "env \<Rightarrow> string \<Rightarrow> world \<Rightarrow> string" where
  "entry_written env m w = drop (length (error_log w)) (error_log (snd (log_error env m w)))"

subsection \<open>Concrete runs\<close>

definition riff_file :: uploaded_file where
  "riff_file = \<lparr>name = ''speech.wav'', type = ''audio/wav'', size_bytes = 4,
                content = [0x52, 0x49, 0x46, 0x46], attrs = []\<rparr>"

definition empty_file :: uploaded_file where
  "empty_file = \<lparr>name = ''empty.wav'', type = ''audio/wav'', size_bytes = 0,
                 content = [], attrs = []\<rparr>"

definition respond :: "int \<Rightarrow> string \<Rightarrow> exn + pyval \<Rightarrow> nat \<Rightarrow> request \<Rightarrow> exn + response" where
  "respond code body parsed = (\<lambda>n rq. Inr \<lparr>status_code = code, body_text = body, json = parsed\<rparr>)"

definition not_json :: "exn + pyval" where
  "not_json = Inl (Exn ''JSONDecodeError'' ''Expecting value: line 1 column 1 (char 0)'')"

definition refuse :: "nat \<Rightarrow> request \<Rightarrow> exn + response" where
  "refuse = (\<lambda>n rq. Inl (Exn ''ConnectionError'' ''Connection refused''))"

text \<open>A run with no file uploaded and no button clicked; the other runs change it.\<close>

definition idle_env :: env where
  "idle_env = \<lparr>api_token = ''secret'', uploaded = None, remote = refuse,
               now = \<lparr>year = 2024, month = 5, day = 1, hour = 12, minute = 0, second = 7,
                      microsecond = 250000\<rparr>,
               log_fault = None, probe = Inr 2,
               decode_error = Exn ''CouldntDecodeError'' ''Decoding failed'', probe_pos = 0,
               lang_choice = ''en'', view_past = False, history = None,
               retry_button = False, tts_import = None, tts_say = None\<rparr>"

definition upload_env :: "uploaded_file \<Rightarrow> (nat \<Rightarrow> request \<Rightarrow> exn + response) \<Rightarrow> env" where
  "upload_env f net = idle_env\<lparr>uploaded := Some f, remote := net\<rparr>"

definition hello :: "exn + pyval" where
  "hello = Inr (PDict [(''text'', PStr ''hello'')])"



definition dq :: "string \<Rightarrow> string" where
  "dq s = CHR 0x22 # s @ [CHR 0x22]"

definition hello_body :: string where
  "hello_body = ''{'' @ dq ''text'' @ '': '' @ dq ''hello'' @ ''}''"

definition both_body :: string where
  "both_body = ''{'' @ dq ''text'' @ '': '' @ dq ''hi'' @ '', '' @ dq ''error'' @ '': '' @
               dq ''late'' @ ''}''"

definition both :: "exn + pyval" where
  "both = Inr (PDict [(''text'', PStr ''hi''), (''error'', PStr ''late'')])"

text \<open>An upload answered by 503 \<^verbatim>\<open>overloaded\<close>; an upload answered by 200 and the
  transcript, once as it is, once with the retry button clicked, once with Spanish
  selected.\<close>

definition overloaded_env :: env where
  "overloaded_env = upload_env riff_file (respond 503 ''overloaded'' not_json)"

definition hello_env :: env where
  "hello_env = upload_env riff_file (respond 200 hello_body hello)"




definition spanish_env :: env where
  "spanish_env = hello_env\<lparr>lang_choice := ''es''\<rparr>"

section \<open>Properties\<close>

subsection \<open>What each statement does, as equations\<close>

lemmas py_defs = py_return_def py_raise_def py_lift_def py_bind_def py_then_def py_try_def

lemma transcribe_audio_cases:
  "transcribe_audio env file w =
     (case file of
        None \<Rightarrow> (Inr (error_dict (str (AttributeError ''NoneType'' ''read''))), w)
      | Some f \<Rightarrow>
          (let w' = w\<lparr>read_pos := max (read_pos w) (length (content f)),
                      sent := sent w @ [request_for env f w]\<rparr>
           in case reply_to env f w of
                Inl e \<Rightarrow> (Inr (error_dict (str e)), w')
              | Inr r \<Rightarrow>
                  if status_code r = 200
                  then (case json r of
                          Inl e \<Rightarrow> (Inr (error_dict (str e)), w')
                        | Inr v \<Rightarrow> (Inr v, w'))
                  else (Inr (error_dict (''API Error: '' @ str_int (status_code r) @ '' - '' @
                                        body_text r)), w')))"
  by (simp add: transcribe_audio_def file_read_def requests_post_def reply_to_def
        request_for_def py_defs Let_def split: option.splits sum.splits)

lemma transcribe_audio_returns:
  "\<exists>v. fst (transcribe_audio env file w) = Inr v"
  by (simp add: transcribe_audio_cases Let_def split: option.splits sum.splits)

lemma feature6_cases:
  "feature6 env w =
     (case transcribe_audio env (uploaded env) w of
        (Inr v, w') \<Rightarrow> (Inr (), w'\<lparr>result := Some v\<rparr>)
      | (Inl e, w') \<Rightarrow> log_error env (str e) w')"
  by (simp add: feature6_def assign_result_def py_defs split: prod.splits sum.splits)

lemma feature11_cases:
  "feature11 env w =
     (if lang_choice env \<noteq> ''en''
      then (case transcribe_audio env (uploaded env) (w\<lparr>lang := Some (lang_choice env)\<rparr>) of
              (Inr v, w') \<Rightarrow> (Inr (), w'\<lparr>result := Some v\<rparr>)
            | (Inl e, w') \<Rightarrow> (Inl e, w'))
      else (Inr (), w\<lparr>lang := Some (lang_choice env)\<rparr>))"
  by (simp add: feature11_def assign_result_def py_defs split: prod.splits sum.splits)

lemma feature21_cases:
  "feature21 env w =
     (if retry_button env
      then (case transcribe_audio env (uploaded env) w of
              (Inr v, w') \<Rightarrow> (Inr (), w'\<lparr>result := Some v\<rparr>)
            | (Inl e, w') \<Rightarrow> (Inl e, w'))
      else (Inr (), w))"
  by (simp add: feature21_def assign_result_def py_defs split: prod.splits sum.splits)

lemma str_int_503: "str_int 503 = ''503''"
  by (simp add: str_int_def str_nat.simps digit_char_def)

lemma str_int_201: "str_int 201 = ''201''"
  by (simp add: str_int_def str_nat.simps digit_char_def)

subsection \<open>The error log\<close>

text \<open>
  \<^verbatim>\<open>transcribe_audio\<close> never touches the log, and it always returns a value, so the
  handler of Feature 6, the only caller of \<^verbatim>\<open>log_error\<close>, never runs.
\<close>

lemma transcribe_audio_keeps_log:
  "error_log (snd (transcribe_audio env file w)) = error_log w"
  by (simp add: transcribe_audio_cases Let_def split: option.splits sum.splits)

lemma feature6_keeps_log:
  "error_log (snd (feature6 env w)) = error_log w"
  using transcribe_audio_returns [of env "uploaded env" w]
    transcribe_audio_keeps_log [of env "uploaded env" w]
  by (auto simp: feature6_cases split: prod.splits sum.splits)

text \<open>
  C1 (every Failure appends exactly one entry to the error log, a Success none). The
  code does not do this. On an upload that the remote answers with 503
  \<^verbatim>\<open>overloaded\<close>, lines 67-72 store the Failure
  \<^verbatim>\<open>{"error": "API Error: 503 - overloaded"}\<close> in \<^verbatim>\<open>result\<close>, return normally, and
  the log is as empty as before.
\<close>

theorem failure_not_logged:
  "fst (feature6 overloaded_env (initial_world [])) = Inr () \<and>
   result (snd (feature6 overloaded_env (initial_world []))) =
     Some (PDict [(''error'', PStr ''API Error: 503 - overloaded'')]) \<and>
   is_failure (PDict [(''error'', PStr ''API Error: 503 - overloaded'')]) \<and>
   error_log (snd (feature6 overloaded_env (initial_world []))) = []"
  by (simp add: feature6_cases transcribe_audio_cases overloaded_env_def upload_env_def
        idle_env_def respond_def riff_file_def initial_world_def reply_to_def request_for_def
        HEADERS_def error_dict_def is_failure_def str_int_503)

subsection \<open>Faults become values\<close>

text \<open>
  C2 (\<^verbatim>\<open>transcribe_audio\<close> never raises to its caller; a fault of reading the file, of
  the transport or of parsing the body is returned as a Failure carrying the fault's
  message). For every environment, file and world the call returns a value; when the
  file is \<^verbatim>\<open>None\<close>, when \<^verbatim>\<open>requests.post\<close> raises \<open>e\<close>, and when the status is 200
  and \<^verbatim>\<open>response.json()\<close> raises \<open>e\<close>, that value is \<^verbatim>\<open>{"error": str(e)}\<close>.
\<close>

theorem transcribe_audio_never_raises:
  "(\<exists>v. fst (transcribe_audio env file w) = Inr v) \<and>
   (file = None \<longrightarrow>
      fst (transcribe_audio env file w) =
        Inr (error_dict (str (AttributeError ''NoneType'' ''read'')))) \<and>
   (\<forall>f e. file = Some f \<and> reply_to env f w = Inl e \<longrightarrow>
      fst (transcribe_audio env file w) = Inr (error_dict (str e))) \<and>
   (\<forall>f r e. file = Some f \<and> reply_to env f w = Inr r \<and> status_code r = 200 \<and>
      json r = Inl e \<longrightarrow>
      fst (transcribe_audio env file w) = Inr (error_dict (str e)))"
  by (auto simp: transcribe_audio_cases Let_def split: option.splits sum.splits)

theorem transcribe_audio_never_raises_witness:
  "fst (transcribe_audio idle_env None (initial_world [])) =
     Inr (error_dict (str (AttributeError ''NoneType'' ''read''))) \<and>
   fst (transcribe_audio (upload_env riff_file refuse) (Some riff_file) (initial_world [])) =
     Inr (error_dict ''Connection refused'') \<and>
   fst (transcribe_audio (upload_env riff_file (respond 200 ''<html>'' not_json))
          (Some riff_file) (initial_world [])) =
     Inr (error_dict ''Expecting value: line 1 column 1 (char 0)'')"
  using transcribe_audio_never_raises [of idle_env None "initial_world []"]
    transcribe_audio_never_raises
      [of "upload_env riff_file refuse" "Some riff_file" "initial_world []"]
    transcribe_audio_never_raises
      [of "upload_env riff_file (respond 200 ''<html>'' not_json)" "Some riff_file"
          "initial_world []"]
  by (simp add: upload_env_def idle_env_def respond_def refuse_def not_json_def
        riff_file_def initial_world_def reply_to_def request_for_def HEADERS_def)

subsection \<open>The request that is issued\<close>

text \<open>
  A call on a file leaves the file's stream at its end; unless something rewinds the
  stream, a later call on the same file reads nothing and posts an empty body. The
  request never depends on the language selected.
\<close>

lemma transcribe_audio_consumes:
  "length (content f) \<le> read_pos (snd (transcribe_audio env (Some f) w))"
  by (simp add: transcribe_audio_cases Let_def split: sum.splits)

lemma transcribe_audio_after_read:
  "length (content f) \<le> read_pos w \<Longrightarrow>
   sent (snd (transcribe_audio env (Some f) w)) =
     sent w @ [\<lparr>url = API_URL, headers = HEADERS env, data = []\<rparr>]"
  by (simp add: transcribe_audio_cases request_for_def Let_def split: sum.splits)

lemma transcribe_audio_ignores_lang:
  "transcribe_audio (env\<lparr>lang_choice := l\<rparr>) file w = transcribe_audio env file w"
  by (cases "file") (simp_all add: transcribe_audio_cases request_for_def reply_to_def HEADERS_def)

subsection \<open>The retry\<close>










subsection \<open>An empty upload\<close>

text \<open>
  C4, as stated (an empty payload is rejected before any network call, yielding an
  InputError): the run on the empty upload ends at line 61 with the exception that
  pydub raises on bytes it cannot decode, which nothing catches; no request has been
  issued and the log is untouched, but no InputError is yielded anywhere.
\<close>

theorem empty_upload_raises_decode_error:
  "script (upload_env empty_file (respond 200 hello_body hello)) (initial_world ''old'') =
     (Inl (Exn ''CouldntDecodeError'' ''Decoding failed''), initial_world ''old'') \<and>
   sent (snd (script (upload_env empty_file (respond 200 hello_body hello))
     (initial_world ''old''))) = []"
  by (simp add: script_def upload_branch_def feature5_def py_defs upload_env_def idle_env_def
        empty_file_def initial_world_def)

text \<open>
  C4, amended: for every payload whose bytes are empty, the run stops before any network
  call is made and no log entry is produced; what stops it is not an input check but
  the exception of pydub at lines 59-63, with which the script ends.
\<close>

theorem empty_upload_stops_at_pydub:
  "uploaded env = Some f \<Longrightarrow> content f = [] \<Longrightarrow>
   script env w = (Inl (decode_error env), w\<lparr>read_pos := probe_pos env\<rparr>) \<and>
   sent (snd (script env w)) = sent w \<and>
   error_log (snd (script env w)) = error_log w"
  by (simp add: script_def upload_branch_def feature5_def py_defs)

theorem empty_upload_stops_at_pydub_witness:
  "fst (script (upload_env empty_file refuse) (initial_world ''old'')) =
     Inl (Exn ''CouldntDecodeError'' ''Decoding failed'') \<and>
   sent (snd (script (upload_env empty_file refuse) (initial_world ''old''))) = [] \<and>
   error_log (snd (script (upload_env empty_file refuse) (initial_world ''old''))) = ''old''"
proof -
  have f: "uploaded (upload_env empty_file refuse) = Some empty_file"
    by (simp add: upload_env_def)
  have e: "content empty_file = []"
    by (simp add: empty_file_def)
  show ?thesis
    using empty_upload_stops_at_pydub [OF f e, of "initial_world ''old''"]
    by (simp add: upload_env_def idle_env_def initial_world_def)
qed

subsection \<open>Classifying the response\<close>

lemma map_of_key: "map_of kv k = Some t \<Longrightarrow> k \<in> fst ` set kv"
  by (metis map_of_SomeD fst_conv image_eqI)

lemma api_error_detail:
  "sublist code (''API Error: '' @ code @ '' - '' @ body) \<and>
   sublist body (''API Error: '' @ code @ '' - '' @ body)"
proof
  show "sublist code (''API Error: '' @ code @ '' - '' @ body)"
    by (rule sublist_appendI)
  have "sublist body ((''API Error: '' @ code @ '' - '') @ body)"
    by (rule sublist_append_leftI)
  then show "sublist body (''API Error: '' @ code @ '' - '' @ body)"
    by simp
qed

text \<open>
  C5, as stated (any 2xx status with a \<^verbatim>\<open>text\<close> field gives Success): the
  code tests \<^verbatim>\<open>status_code == 200\<close>. A reply with status 201 and the body
  \<^verbatim>\<open>{"text": "hello"}\<close> is returned as the Failure \<^verbatim>\<open>API Error: 201 - ...\<close>.
\<close>

theorem status_201_is_failure:
  "fst (transcribe_audio (upload_env riff_file (respond 201 hello_body hello)) (Some riff_file)
         (initial_world [])) =
     Inr (PDict [(''error'', PStr (''API Error: 201 - '' @ hello_body))]) \<and>
   \<not> is_success (PDict [(''error'', PStr (''API Error: 201 - '' @ hello_body))]) \<and>
   is_failure (PDict [(''error'', PStr (''API Error: 201 - '' @ hello_body))])"
  by (simp add: transcribe_audio_cases upload_env_def idle_env_def respond_def hello_def
        riff_file_def initial_world_def reply_to_def request_for_def HEADERS_def error_dict_def
        is_success_def is_failure_def str_int_201)

text \<open>
  C5, amended: for every response with status exactly 200 whose JSON body is an object
  with a \<^verbatim>\<open>text\<close> field, \<^verbatim>\<open>transcribe_audio\<close> returns that body, a Success holding
  that text; for every response with any other status (other 2xx codes included) it
  returns the Failure whose detail is \<^verbatim>\<open>API Error: <status> - <body text>\<close>, which
  contains the status code and the body text.
\<close>

theorem status_200_or_api_error:
  "reply_to env f w = Inr r \<Longrightarrow>
   (status_code r = 200 \<and> json r = Inr (PDict kv) \<and> map_of kv ''text'' = Some t \<longrightarrow>
      fst (transcribe_audio env (Some f) w) = Inr (PDict kv) \<and>
      is_success (PDict kv) \<and> py_getitem (PDict kv) ''text'' = Inr t) \<and>
   (status_code r \<noteq> 200 \<longrightarrow>
      fst (transcribe_audio env (Some f) w) =
        Inr (error_dict (''API Error: '' @ str_int (status_code r) @ '' - '' @ body_text r)) \<and>
      sublist (str_int (status_code r))
        (''API Error: '' @ str_int (status_code r) @ '' - '' @ body_text r) \<and>
      sublist (body_text r)
        (''API Error: '' @ str_int (status_code r) @ '' - '' @ body_text r))"
proof (intro conjI impI)
  assume r: "reply_to env f w = Inr r"
  {
    assume ok: "status_code r = 200 \<and> json r = Inr (PDict kv) \<and> map_of kv ''text'' = Some t"
    show "fst (transcribe_audio env (Some f) w) = Inr (PDict kv)"
      using r ok by (simp add: transcribe_audio_cases Let_def)
    show "is_success (PDict kv)"
      using ok map_of_key [of kv "''text''" t] by (simp add: is_success_def)
    show "py_getitem (PDict kv) ''text'' = Inr t"
      using ok by simp
  }
  {
    assume bad: "status_code r \<noteq> 200"
    show "fst (transcribe_audio env (Some f) w) =
        Inr (error_dict (''API Error: '' @ str_int (status_code r) @ '' - '' @ body_text r))"
      using r bad by (simp add: transcribe_audio_cases Let_def)
    show "sublist (str_int (status_code r))
        (''API Error: '' @ str_int (status_code r) @ '' - '' @ body_text r)"
      using api_error_detail by blast
    show "sublist (body_text r)
        (''API Error: '' @ str_int (status_code r) @ '' - '' @ body_text r)"
      using api_error_detail by blast
  }
qed

theorem status_200_or_api_error_witness:
  "fst (transcribe_audio hello_env (Some riff_file) (initial_world [])) =
     Inr (PDict [(''text'', PStr ''hello'')]) \<and>
   py_getitem (PDict [(''text'', PStr ''hello'')]) ''text'' = Inr (PStr ''hello'') \<and>
   fst (transcribe_audio overloaded_env (Some riff_file) (initial_world [])) =
     Inr (error_dict ''API Error: 503 - overloaded'') \<and>
   sublist ''503'' ''API Error: 503 - overloaded'' \<and>
   sublist ''overloaded'' ''API Error: 503 - overloaded''"
  using status_200_or_api_error
      [of hello_env riff_file "initial_world []"
          "\<lparr>status_code = 200, body_text = hello_body, json = hello\<rparr>"
          "[(''text'', PStr ''hello'')]" "PStr ''hello''"]
    status_200_or_api_error
      [of overloaded_env riff_file "initial_world []"
          "\<lparr>status_code = 503, body_text = ''overloaded'', json = not_json\<rparr>"]
  by (simp add: hello_env_def overloaded_env_def upload_env_def idle_env_def respond_def
        hello_def riff_file_def initial_world_def reply_to_def request_for_def HEADERS_def
        sublist_code str_int_503)

subsection \<open>The language selection\<close>

text \<open>
  C6 (a selected language is carried in the issued request). The code does not carry it:
  \<^verbatim>\<open>transcribe_audio\<close> has no language parameter. With Spanish selected, line 98 sends
  the URL, the bearer header and the bytes of the file and nothing else, the very
  request of the first attempt without any selection; the selection only ends up in
  the variable \<^verbatim>\<open>lang\<close>.
\<close>

theorem language_not_in_request:
  "sent (snd (feature11 spanish_env (initial_world []))) =
     [\<lparr>url = API_URL, headers = [(''Authorization'', ''Bearer secret'')],
       data = [0x52, 0x49, 0x46, 0x46]\<rparr>] \<and>
   sent (snd (feature11 spanish_env (initial_world []))) =
     sent (snd (feature6 hello_env (initial_world []))) \<and>
   lang (snd (feature11 spanish_env (initial_world []))) = Some ''es''"
  by (simp add: feature11_cases feature6_cases transcribe_audio_cases spanish_env_def hello_env_def upload_env_def idle_env_def respond_def
        hello_def riff_file_def initial_world_def reply_to_def request_for_def HEADERS_def)

subsection \<open>The returned value\<close>

text \<open>
  C7, as stated (every returned value is exactly one of Success and Failure):
  on status 200 the code returns the parsed body whatever it is. The body \<^verbatim>\<open>{}\<close> comes
  back as a value that is neither; a body with both keys comes back as one that is
  both.
\<close>

theorem unchecked_body_is_neither_or_both:
  "fst (transcribe_audio (upload_env riff_file (respond 200 ''{}'' (Inr (PDict []))))
         (Some riff_file) (initial_world [])) = Inr (PDict []) \<and>
   \<not> is_success (PDict []) \<and> \<not> is_failure (PDict []) \<and>
   fst (transcribe_audio (upload_env riff_file (respond 200 both_body both)) (Some riff_file)
         (initial_world [])) =
     Inr (PDict [(''text'', PStr ''hi''), (''error'', PStr ''late'')]) \<and>
   is_success (PDict [(''text'', PStr ''hi''), (''error'', PStr ''late'')]) \<and>
   is_failure (PDict [(''text'', PStr ''hi''), (''error'', PStr ''late'')])"
  by (simp add: transcribe_audio_cases upload_env_def idle_env_def respond_def both_def
        riff_file_def initial_world_def reply_to_def request_for_def HEADERS_def
        is_success_def is_failure_def)

text \<open>
  C7, amended: every call of \<^verbatim>\<open>transcribe_audio\<close> returns a value, which is either a
  dict \<^verbatim>\<open>{"error": detail}\<close>, a Failure and not a Success, or the parsed JSON body of a
  response with status 200, returned unchecked.
\<close>

theorem transcribe_audio_result_shape:
  "\<exists>v. fst (transcribe_audio env file w) = Inr v \<and>
     ((\<exists>d. v = error_dict d \<and> is_failure v \<and> \<not> is_success v) \<or>
      (\<exists>f r. file = Some f \<and> reply_to env f w = Inr r \<and> status_code r = 200 \<and>
         json r = Inr v))"
  by (cases "file")
     (auto simp: transcribe_audio_cases Let_def is_failure_def is_success_def error_dict_def
           split: sum.splits)

subsection \<open>The response time\<close>

text \<open>
  C8 (the response time reads an attribute of the uploaded file that does not exist, so
  the access fails whenever the step is reached). For every uploaded file without an
  attribute \<^verbatim>\<open>_timestamp\<close> and every state in which line 92 runs, the statement raises
  \<^verbatim>\<open>AttributeError\<close> and changes nothing.
\<close>

theorem response_time_raises:
  "map_of (attrs f) ''_timestamp'' = None \<Longrightarrow>
   feature10 f w = (Inl (AttributeError ''UploadedFile'' ''_timestamp''), w)"
  by (simp add: feature10_def py_raise_def)

theorem response_time_raises_witness:
  "feature10 riff_file (initial_world []) =
     (Inl (AttributeError ''UploadedFile'' ''_timestamp''), initial_world [])"
  using response_time_raises [of riff_file "initial_world []"]
  by (simp add: riff_file_def)

subsection \<open>Writing the log\<close>

text \<open>The timestamp of an entry: digits and separators in the ISO-8601 layout, and no
  line break.\<close>

lemma is_digit_digit_char: "k < 10 \<Longrightarrow> is_digit (digit_char k)"
proof -
  assume "k < 10"
  then have "k \<in> {0, 1, 2, 3, 4, 5, 6, 7, 8, 9}" by auto
  then show ?thesis by (auto simp: is_digit_def digit_char_def)
qed

lemma str_nat_digits: "list_all is_digit (str_nat n)"
proof (induction n rule: str_nat.induct)
  case (1 n)
  show ?case
  proof (cases "n < 10")
    case True
    then show ?thesis by (simp add: str_nat.simps [of n] is_digit_digit_char)
  next
    case False
    with "1" show ?thesis by (simp add: str_nat.simps [of n] is_digit_digit_char)
  qed
qed

lemma str_nat_length: "0 < k \<Longrightarrow> n < 10 ^ k \<Longrightarrow> length (str_nat n) \<le> k"
proof (induction n arbitrary: k rule: str_nat.induct)
  case (1 n)
  show ?case
  proof (cases "n < 10")
    case True
    with "1.prems" show ?thesis by (simp add: str_nat.simps [of n])
  next
    case False
    from "1.prems" obtain j where k: "k = Suc j" by (cases k) auto
    from False "1.prems" k have "0 < j" by (cases j) auto
    moreover from "1.prems" k have "n div 10 < 10 ^ j"
      by (simp add: less_mult_imp_div_less mult.commute)
    ultimately have "length (str_nat (n div 10)) \<le> j"
      using "1.IH" False by simp
    with False k show ?thesis by (simp add: str_nat.simps [of n])
  qed
qed

lemma zfill_digits:
  "list_all is_digit s \<Longrightarrow> length s \<le> n \<Longrightarrow>
   list_all2 fits (replicate n CHR ''d'') (zfill n s)"
  by (simp add: zfill_def list_all2_conv_all_nth list_all_length nth_append fits_def is_digit_def)

lemma field_fits:
  "0 < k \<Longrightarrow> n < 10 ^ k \<Longrightarrow> list_all2 fits (replicate k CHR ''d'') (zfill k (str_nat n))"
  by (rule zfill_digits [OF str_nat_digits str_nat_length])

lemma replicate_d:
  "replicate 2 c = [c, c]" "replicate 4 c = [c, c, c, c]" "replicate 6 c = [c, c, c, c, c, c]"
  by (simp_all add: numeral_eq_Suc)

lemma newline_not_in_zfill: "CHR 0x0A \<notin> set (zfill n (str_nat k))"
proof -
  have "\<not> is_digit (CHR 0x0A)" by (simp add: is_digit_def)
  moreover have "\<forall>c \<in> set (str_nat k). is_digit c"
    using str_nat_digits [of k] by (simp add: list_all_iff)
  ultimately show ?thesis by (auto simp: zfill_def)
qed

lemma newline_not_in_str_datetime: "CHR 0x0A \<notin> set (str_datetime d)"
  by (simp add: str_datetime_def newline_not_in_zfill)

lemma str_datetime_iso: "valid_datetime d \<Longrightarrow> iso_8601 (str_datetime d)"
proof -
  assume v: "valid_datetime d"
  have y: "list_all2 fits ''dddd'' (zfill 4 (str_nat (year d)))"
    using field_fits [of 4 "year d"] v by (simp add: valid_datetime_def replicate_d)
  have two: "n < 100 \<Longrightarrow> list_all2 fits ''dd'' (zfill 2 (str_nat n))" for n
    using field_fits [of 2 n] by (simp add: replicate_d)
  have mo: "list_all2 fits ''dd'' (zfill 2 (str_nat (month d)))"
    and da: "list_all2 fits ''dd'' (zfill 2 (str_nat (day d)))"
    and ho: "list_all2 fits ''dd'' (zfill 2 (str_nat (hour d)))"
    and mi: "list_all2 fits ''dd'' (zfill 2 (str_nat (minute d)))"
    and se: "list_all2 fits ''dd'' (zfill 2 (str_nat (second d)))"
    using v by (auto simp: valid_datetime_def intro!: two)
  have us: "list_all2 fits ''dddddd'' (zfill 6 (str_nat (microsecond d)))"
    using field_fits [of 6 "microsecond d"] v by (simp add: valid_datetime_def replicate_d)
  have sep: "list_all2 fits ''-'' ''-''" "list_all2 fits '' '' '' ''"
    "list_all2 fits '':'' '':''" "list_all2 fits ''.'' ''.''"
    by (simp_all add: fits_def)
  have short:
    "list_all2 fits
       (''dddd'' @ ''-'' @ ''dd'' @ ''-'' @ ''dd'' @ '' '' @ ''dd'' @ '':'' @ ''dd'' @ '':'' @ ''dd'')
       (zfill 4 (str_nat (year d)) @ ''-'' @ zfill 2 (str_nat (month d)) @ ''-'' @
        zfill 2 (str_nat (day d)) @ '' '' @
        zfill 2 (str_nat (hour d)) @ '':'' @ zfill 2 (str_nat (minute d)) @ '':'' @
        zfill 2 (str_nat (second d)))"
    by (intro list_all2_appendI y mo da ho mi se sep)
  show ?thesis
  proof (cases "microsecond d = 0")
    case True
    with short show ?thesis by (simp add: iso_8601_def str_datetime_def)
  next
    case False
    have "list_all2 fits
       ((''dddd'' @ ''-'' @ ''dd'' @ ''-'' @ ''dd'' @ '' '' @ ''dd'' @ '':'' @ ''dd'' @ '':'' @ ''dd'') @
        ''.'' @ ''dddddd'')
       ((zfill 4 (str_nat (year d)) @ ''-'' @ zfill 2 (str_nat (month d)) @ ''-'' @
         zfill 2 (str_nat (day d)) @ '' '' @
         zfill 2 (str_nat (hour d)) @ '':'' @ zfill 2 (str_nat (minute d)) @ '':'' @
         zfill 2 (str_nat (second d))) @ ''.'' @ zfill 6 (str_nat (microsecond d)))"
      by (intro list_all2_appendI short us sep)
    with False show ?thesis by (simp add: iso_8601_def str_datetime_def)
  qed
qed

lemma str_datetime_idle: "str_datetime (now idle_env) = ''2024-05-01 12:00:07.250000''"
  by (simp add: idle_env_def str_datetime_def zfill_def str_nat.simps digit_char_def)

text \<open>
  C9, as stated (every entry is a single complete line): a message with a line break in
  it is written as it is, and the entry spans two lines.
\<close>

theorem multiline_message_entry:
  "entry_written idle_env (''first'' @ [CHR 0x0A] @ ''second'') (initial_world ''old'') =
     ''2024-05-01 12:00:07.250000: first'' @ [CHR 0x0A] @ ''second'' @ [CHR 0x0A] \<and>
   \<not> single_line
     (entry_written idle_env (''first'' @ [CHR 0x0A] @ ''second'') (initial_world ''old''))"
proof -
  have "log_fault idle_env = None"
    by (simp add: idle_env_def)
  then show ?thesis
    by (simp add: log_error_def log_entry_def entry_written_def single_line_def
          initial_world_def str_datetime_idle)
qed

text \<open>
  C9, amended: every entry that \<^verbatim>\<open>log_error\<close> writes in full is
  \<^verbatim>\<open><ISO-8601 timestamp>: <message>\<close> and one line break, the timestamp being the date
  and the time of \<^verbatim>\<open>datetime.now()\<close> with a space between them; it is appended to the
  existing content of the log, which is never edited or truncated, also when opening
  or writing the file fails; and the entry is a single complete line exactly when the
  message contains no line break.
\<close>

theorem log_error_appends:
  "prefix (error_log w) (error_log (snd (log_error env m w))) \<and>
   (log_fault env = None \<longrightarrow>
      log_error env m w =
        (Inr (), w\<lparr>error_log := error_log w @ str_datetime (now env) @ '': '' @ m @ [CHR 0x0A]\<rparr>) \<and>
      entry_written env m w = str_datetime (now env) @ '': '' @ m @ [CHR 0x0A] \<and>
      single_line (entry_written env m w) = (CHR 0x0A \<notin> set m)) \<and>
   (valid_datetime (now env) \<longrightarrow> iso_8601 (str_datetime (now env)))"
proof (intro conjI impI)
  show "prefix (error_log w) (error_log (snd (log_error env m w)))"
    by (simp add: log_error_def split: option.splits prod.splits)
  show "iso_8601 (str_datetime (now env))" if "valid_datetime (now env)"
    using that by (rule str_datetime_iso)
next
  assume ok: "log_fault env = None"
  then show "log_error env m w =
      (Inr (), w\<lparr>error_log := error_log w @ str_datetime (now env) @ '': '' @ m @ [CHR 0x0A]\<rparr>)"
    by (simp add: log_error_def log_entry_def)
  from ok show entry: "entry_written env m w = str_datetime (now env) @ '': '' @ m @ [CHR 0x0A]"
    by (simp add: log_error_def log_entry_def entry_written_def)
  have "single_line (str_datetime (now env) @ '': '' @ m @ [CHR 0x0A]) = (CHR 0x0A \<notin> set m)"
    using newline_not_in_str_datetime [of "now env"]
    by (auto simp add: single_line_def butlast_append)
  with entry show "single_line (entry_written env m w) = (CHR 0x0A \<notin> set m)"
    by simp
qed

theorem log_error_appends_witness:
  "log_error idle_env ''Connection refused'' (initial_world ''old'') =
     (Inr (), (initial_world ''old'')
        \<lparr>error_log := ''old2024-05-01 12:00:07.250000: Connection refused'' @ [CHR 0x0A]\<rparr>) \<and>
   single_line (entry_written idle_env ''Connection refused'' (initial_world ''old'')) \<and>
   iso_8601 ''2024-05-01 12:00:07.250000''"
proof -
  have ok: "log_fault idle_env = None"
    by (simp add: idle_env_def)
  have v: "valid_datetime (now idle_env)"
    by (simp add: idle_env_def valid_datetime_def)
  note fact = log_error_appends [of "initial_world ''old''" idle_env "''Connection refused''"]
  from fact ok have "log_error idle_env ''Connection refused'' (initial_world ''old'') =
      (Inr (), (initial_world ''old'')
         \<lparr>error_log := ''old2024-05-01 12:00:07.250000: Connection refused'' @ [CHR 0x0A]\<rparr>)"
    by (simp add: str_datetime_idle initial_world_def)
  moreover from fact ok
  have "single_line (entry_written idle_env ''Connection refused'' (initial_world ''old'')) =
      (CHR 0x0A \<notin> set ''Connection refused'')"
    by blast
  then have "single_line (entry_written idle_env ''Connection refused'' (initial_world ''old''))"
    by simp
  moreover from fact v have "iso_8601 ''2024-05-01 12:00:07.250000''"
    by (simp add: str_datetime_idle)
  ultimately show ?thesis by simp
qed

subsection \<open>A run with no upload\<close>

text \<open>
  C10, as stated (the run with no upload also reads the never-assigned \<^verbatim>\<open>result\<close>): the
  run with no upload and no button clicked ends at line 150 with the
  \<^verbatim>\<open>AttributeError\<close> of \<^verbatim>\<open>uploaded_file.name\<close>; the \<^verbatim>\<open>NameError\<close> that a read of
  \<^verbatim>\<open>result\<close> would raise is not what it ends with.
\<close>

theorem idle_run_stops_before_result:
  "fst (script idle_env (initial_world [])) = Inl (AttributeError ''NoneType'' ''name'') \<and>
   fst (script idle_env (initial_world [])) \<noteq> Inl (NameError ''result'')"
  by (simp add: script_def upload_branch_def feature17_def feature20_def py_defs idle_env_def
        AttributeError_def NameError_def)

text \<open>
  C10, amended: for every run in which no file has been uploaded, the code after the
  upload branch still executes and the script raises instead of completing: it stops at
  line 150 with the \<^verbatim>\<open>AttributeError\<close> of \<^verbatim>\<open>uploaded_file.name\<close> on \<^verbatim>\<open>None\<close> (or,
  when the history button was clicked and reading the history file raised, with that
  exception at line 132), with the world unchanged. Whatever statements \<open>k\<close> follow line
  152, the run ends the same way: the reads of \<^verbatim>\<open>result\<close> further down are not
  reached.
\<close>

theorem idle_run_raises:
  "uploaded env = None \<Longrightarrow>
   script env w =
     (Inl (case (if view_past env then history env else None) of
             Some (Inl e) \<Rightarrow> e
           | _ \<Rightarrow> AttributeError ''NoneType'' ''name''), w) \<and>
   (\<forall>k. py_then (upload_branch env) (py_then (feature17 env) (py_then (feature20 env) k)) w =
     (Inl (case (if view_past env then history env else None) of
             Some (Inl e) \<Rightarrow> e
           | _ \<Rightarrow> AttributeError ''NoneType'' ''name''), w))"
  by (simp add: script_def upload_branch_def feature17_def feature20_def py_defs
        split: option.splits sum.splits)

theorem idle_run_raises_witness:
  "script idle_env (initial_world []) =
     (Inl (AttributeError ''NoneType'' ''name''), initial_world []) \<and>
   script (idle_env\<lparr>view_past := True, history := Some (Inl (Exn ''PermissionError'' ''denied''))\<rparr>)
     (initial_world []) = (Inl (Exn ''PermissionError'' ''denied''), initial_world [])"
proof -
  have idle: "uploaded idle_env = None"
    by (simp add: idle_env_def)
  have denied:
    "uploaded (idle_env\<lparr>view_past := True,
        history := Some (Inl (Exn ''PermissionError'' ''denied''))\<rparr>) = None"
    by (simp add: idle_env_def)
  have "script idle_env (initial_world []) =
      (Inl (AttributeError ''NoneType'' ''name''), initial_world [])"
    using idle_run_raises [OF idle, of "initial_world []", THEN conjunct1]
    by (simp add: idle_env_def)
  moreover have
    "script (idle_env\<lparr>view_past := True,
        history := Some (Inl (Exn ''PermissionError'' ''denied''))\<rparr>) (initial_world []) =
      (Inl (Exn ''PermissionError'' ''denied''), initial_world [])"
    using idle_run_raises [OF denied, of "initial_world []", THEN conjunct1]
    by (simp add: idle_env_def)
  ultimately show ?thesis by simp
qed

subsection \<open>Whole runs\<close>

text \<open>
  A run with an upload whose file object has no \<^verbatim>\<open>_timestamp\<close> never gets past line
  92, whatever the remote answers.
\<close>

lemma py_then_raises_first:
  "\<exists>e. fst (m w) = Inl e \<Longrightarrow> \<exists>e. fst (py_then m n w) = Inl e"
  by (cases "m w") (auto simp: py_then_def py_bind_def)

lemma py_then_raises:
  assumes "\<And>w. \<exists>e. fst (n w) = Inl e"
  shows "\<exists>e. fst (py_then m n w) = Inl e"
proof (cases "m w")
  case (Pair r w')
  show ?thesis
  proof (cases r)
    case (Inl e)
    with Pair show ?thesis by (simp add: py_then_def py_bind_def)
  next
    case (Inr u)
    with Pair assms [of w'] show ?thesis by (simp add: py_then_def py_bind_def)
  qed
qed

lemma upload_run_raises:
  assumes "uploaded env = Some f" and "map_of (attrs f) ''_timestamp'' = None"
  shows "\<exists>e. fst (script env w) = Inl e"
proof -
  have step10: "\<exists>e. fst (py_then (feature10 f) k w') = Inl e" for k w'
    by (rule py_then_raises_first) (simp add: feature10_def py_raise_def assms(2))
  have step7: "\<exists>e. fst (py_then feature7 (py_then (feature10 f) k) w') = Inl e" for k w'
    by (rule py_then_raises) (rule step10)
  have step6: "\<exists>e. fst (py_then (feature6 env) (py_then feature7 (py_then (feature10 f) k)) w')
      = Inl e" for k w'
    by (rule py_then_raises) (rule step7)
  have step5: "\<exists>e. fst (py_then (feature5 env) (py_then (feature6 env) (py_then feature7
      (py_then (feature10 f) k))) w') = Inl e" for k w'
    by (rule py_then_raises) (rule step6)
  have "\<exists>e. fst (upload_branch env w) = Inl e"
    using assms(1) step5 by (simp add: upload_branch_def)
  then show ?thesis
    unfolding script_def by (rule py_then_raises_first)
qed

text \<open>No statement of the script writes the log: in no run is \<^verbatim>\<open>log_error\<close> called.\<close>

lemma py_bind_keeps_log:
  assumes "\<And>w. error_log (snd (m w)) = error_log w"
    and "\<And>x w. error_log (snd (k x w)) = error_log w"
  shows "error_log (snd (py_bind m k w)) = error_log w"
proof (cases "m w")
  case (Pair r w')
  have w': "error_log w' = error_log w"
    using assms(1) [of w] Pair by simp
  show ?thesis
  proof (cases r)
    case (Inl e)
    with Pair w' show ?thesis by (simp add: py_bind_def)
  next
    case (Inr x)
    with Pair w' assms(2) [of x w'] show ?thesis by (simp add: py_bind_def)
  qed
qed

lemma py_then_keeps_log:
  assumes "\<And>w. error_log (snd (m w)) = error_log w"
    and "\<And>w. error_log (snd (n w)) = error_log w"
  shows "error_log (snd (py_then m n w)) = error_log w"
  unfolding py_then_def using assms by (rule py_bind_keeps_log)

lemma read_result_keeps_log: "error_log (snd (read_result w)) = error_log w"
  by (simp add: read_result_def split: option.splits)

lemma in_result_keeps_log: "error_log (snd (in_result k w)) = error_log w"
  unfolding in_result_def
  by (rule py_bind_keeps_log) (simp_all add: read_result_keeps_log py_lift_def)

lemma result_item_keeps_log: "error_log (snd (result_item k w)) = error_log w"
  unfolding result_item_def
  by (rule py_bind_keeps_log) (simp_all add: read_result_keeps_log py_lift_def)

lemma assign_result_keeps_log:
  assumes "\<And>w. error_log (snd (m w)) = error_log w"
  shows "error_log (snd (assign_result m w)) = error_log w"
  unfolding assign_result_def using assms by (rule py_bind_keeps_log) simp

lemma feature5_keeps_log: "error_log (snd (feature5 env w)) = error_log w"
  by (simp add: feature5_def py_return_def split: option.splits sum.splits)

lemma st_download_button_keeps_log: "error_log (snd (st_download_button d w)) = error_log w"
  by (simp add: st_download_button_def py_return_def py_raise_def split: pyval.splits)

lemma feature7_keeps_log: "error_log (snd (feature7 w)) = error_log w"
  unfolding feature7_def
  by (intro py_bind_keeps_log in_result_keeps_log)
     (auto intro!: py_bind_keeps_log
           simp: result_item_keeps_log st_download_button_keeps_log py_return_def)

lemma st_audio_keeps_log: "error_log (snd (st_audio w)) = error_log w"
  by (simp add: st_audio_def)

lemma feature10_keeps_log: "error_log (snd (feature10 f w)) = error_log w"
  by (simp add: feature10_def py_return_def py_raise_def split: option.splits pyval.splits)

lemma feature11_keeps_log: "error_log (snd (feature11 env w)) = error_log w"
  by (simp add: feature11_cases transcribe_audio_cases Let_def split: option.splits sum.splits)

lemma feature12_keeps_log: "error_log (snd (feature12 w)) = error_log w"
  unfolding feature12_def
  by (intro py_bind_keeps_log in_result_keeps_log)
     (auto intro!: py_bind_keeps_log simp: result_item_keeps_log py_return_def)

lemma upload_branch_keeps_log: "error_log (snd (upload_branch env w)) = error_log w"
proof (cases "uploaded env")
  case None
  then show ?thesis by (simp add: upload_branch_def py_return_def)
next
  case (Some f)
  then show ?thesis
    by (simp add: upload_branch_def)
       (intro py_then_keeps_log feature5_keeps_log feature6_keeps_log feature7_keeps_log
          feature10_keeps_log feature11_keeps_log feature12_keeps_log st_audio_keeps_log)
qed

lemma feature17_keeps_log: "error_log (snd (feature17 env w)) = error_log w"
  by (simp add: feature17_def py_return_def py_raise_def split: option.splits sum.splits)

lemma feature20_keeps_log: "error_log (snd (feature20 env w)) = error_log w"
  by (simp add: feature20_def py_return_def py_raise_def split: option.splits)

lemma feature21_keeps_log: "error_log (snd (feature21 env w)) = error_log w"
  by (simp add: feature21_cases transcribe_audio_cases Let_def split: option.splits sum.splits)

lemma feature22_keeps_log: "error_log (snd (feature22 w)) = error_log w"
  unfolding feature22_def
  by (intro py_bind_keeps_log in_result_keeps_log) (simp add: py_return_def)

lemma feature23_keeps_log: "error_log (snd (feature23 env w)) = error_log w"
proof (cases "tts_import env")
  case None
  have "error_log (snd (py_bind (in_result ''text'') (\<lambda>b.
         if b then (case tts_say env of Some e \<Rightarrow> py_raise e | None \<Rightarrow> py_return ())
         else py_return ()) w)) = error_log w"
    by (intro py_bind_keeps_log in_result_keeps_log)
       (simp add: py_return_def py_raise_def split: option.splits)
  with None show ?thesis by (simp add: feature23_def)
next
  case (Some e)
  then show ?thesis by (simp add: feature23_def py_raise_def)
qed

lemma read_duration_keeps_log: "error_log (snd (read_duration w)) = error_log w"
  by (simp add: read_duration_def split: option.splits)

lemma read_lang_keeps_log: "error_log (snd (read_lang w)) = error_log w"
  by (simp add: read_lang_def split: option.splits)

lemma feature25_keeps_log: "error_log (snd (feature25 w)) = error_log w"
  unfolding feature25_def
  by (intro py_bind_keeps_log in_result_keeps_log)
     (auto intro!: py_bind_keeps_log
           simp: result_item_keeps_log read_duration_keeps_log read_lang_keeps_log
                 py_return_def py_raise_def split: pyval.splits)

lemma script_keeps_log: "error_log (snd (script env w)) = error_log w"
  unfolding script_def
  by (intro py_then_keeps_log upload_branch_keeps_log feature17_keeps_log feature20_keeps_log
        feature21_keeps_log feature22_keeps_log feature23_keeps_log feature25_keeps_log)

end
